theory Spec2Isabelle
  imports Complex_Main "HOL-Library.Word"
begin

section \<open>Strings\<close>

text \<open>
  A Python \<open>str\<close> is modelled as a \<open>string\<close>, each \<open>char\<close> standing for the code point of
  the same number. The model therefore covers the strings whose code points are below 256
  (Latin-1); on that range the functions below are the ones Python applies.
\<close>

definition NEWLINE :: char where
  "NEWLINE = CHR 0x0A"

text \<open>\<open>str.lower\<close> on one code point below 256: A-Z, and U+00C0..U+00DE without U+00D7.\<close>

definition lower_char :: "char \<Rightarrow> char" where
  "lower_char c =
     (let n = (of_char c :: nat)
      in if (65 \<le> n \<and> n \<le> 90) \<or> (192 \<le> n \<and> n \<le> 222 \<and> n \<noteq> 215)
         then char_of (n + 32) else c)"

definition lower :: "string \<Rightarrow> string" where
  "lower s = map lower_char s"

text \<open>\<open>\d\<close> of a \<open>str\<close> pattern: the decimal digits; below 256 these are 0-9.\<close>

definition is_digit :: "char \<Rightarrow> bool" where
  "is_digit c = (let n = (of_char c :: nat) in 48 \<le> n \<and> n \<le> 57)"

text \<open>\<open>k in tl\<close> for two strings: \<open>k\<close> occurs in \<open>tl\<close> as a contiguous run.\<close>

fun is_prefix :: "string \<Rightarrow> string \<Rightarrow> bool" where
  "is_prefix [] s = True"
| "is_prefix (k # ks) [] = False"
| "is_prefix (k # ks) (c # cs) = (k = c \<and> is_prefix ks cs)"

fun contains_str :: "string \<Rightarrow> string \<Rightarrow> bool" where
  "contains_str k [] = (k = [])"
| "contains_str k (c # cs) = (is_prefix k (c # cs) \<or> contains_str k cs)"

section \<open>The name-exclusion filter\<close>

text \<open>
  The two patterns of \<open>is_filtered_system\<close> are sequences of literals and \<open>\d\<close> between
  \<open>^\<close> and \<open>$\<close>. A literal under \<open>re.IGNORECASE\<close> matches a character with the same
  lower-case form. \<open>re.match\<close> starts at the beginning of the string. \<open>$\<close>, without
  \<open>re.MULTILINE\<close>, matches at the end of the string and also just before a newline that
  is the last character of the string.
\<close>

datatype re_atom = Lit char | Digit

fun atom_matches :: "re_atom \<Rightarrow> char \<Rightarrow> bool" where
  "atom_matches (Lit p) c = (lower_char c = lower_char p)"
| "atom_matches Digit c = is_digit c"

fun match_atoms :: "re_atom list \<Rightarrow> string \<Rightarrow> string option" where
  "match_atoms [] s = Some s"
| "match_atoms (a # as) [] = None"
| "match_atoms (a # as) (c # cs) = (if atom_matches a c then match_atoms as cs else None)"

definition at_dollar :: "string \<Rightarrow> bool" where
  "at_dollar rest = (rest = [] \<or> rest = [NEWLINE])"

definition re_match :: "re_atom list \<Rightarrow> string \<Rightarrow> bool" where
  "re_match pat s = (case match_atoms pat s of None \<Rightarrow> False | Some rest \<Rightarrow> at_dollar rest)"

definition PAT_V :: "re_atom list" where
  "PAT_V = [Lit (CHR ''V''), Lit (CHR ''-''), Digit, Digit, Digit]"

definition PAT_AD :: "re_atom list" where
  "PAT_AD = [Lit (CHR ''A''), Lit (CHR ''D''), Digit, Digit, Digit]"

definition is_filtered_system :: "string \<Rightarrow> bool" where
  "is_filtered_system name =
     (if re_match PAT_V name then True
      else if re_match PAT_AD name then True
      else False)"

section \<open>Schema inference\<close>

text \<open>
  \<open>infer_table\<close> reads the table names of \<open>sqlite_master\<close> and scans them; the model takes
  the enumerated names as its argument. \<open>None\<close> is Python's \<open>None\<close>.
\<close>

fun first_table :: "string list \<Rightarrow> string list \<Rightarrow> string option" where
  "first_table [] needle_keywords = None"
| "first_table (t # ts) needle_keywords =
     (if list_ex (\<lambda>k. contains_str k (lower t)) needle_keywords then Some t
      else first_table ts needle_keywords)"

definition infer_table :: "string list \<Rightarrow> string list \<Rightarrow> string option" where
  "infer_table tables needle_keywords =
     (case first_table tables needle_keywords of
        Some t \<Rightarrow> Some t
      | None \<Rightarrow> (case tables of [] \<Rightarrow> None | t0 # _ \<Rightarrow> Some t0))"

fun find_lowered :: "string \<Rightarrow> string list \<Rightarrow> string option" where
  "find_lowered cand [] = None"
| "find_lowered cand (c # cs) = (if cand = lower c then Some c else find_lowered cand cs)"

fun find_col :: "string list \<Rightarrow> string list \<Rightarrow> string option" where
  "find_col cols [] = None"
| "find_col cols (cand # cands) =
     (case find_lowered cand cols of Some c \<Rightarrow> Some c | None \<Rightarrow> find_col cols cands)"

section \<open>Python values\<close>

subsection \<open>Errors\<close>

text \<open>
  Every exception that ends a run is a value. \<open>DatabaseError\<close> stands for the errors
  of the \<open>sqlite3\<close> module, \<open>SystemExit\<close> carries the diagnostic of \<open>raise SystemExit\<close>.
\<close>

datatype py_error =
    SystemExit string
  | TypeError
  | ValueError
  | OverflowError
  | IndexError
  | ZeroDivisionError
  | DatabaseError

definition bind_err :: "py_error + 'a \<Rightarrow> ('a \<Rightarrow> py_error + 'b) \<Rightarrow> py_error + 'b" where
  "bind_err m f = (case m of Inl e \<Rightarrow> Inl e | Inr v \<Rightarrow> f v)"

subsection \<open>Binary floating point\<close>

text \<open>
  A Python \<open>float\<close> is an IEEE 754 binary64 value, an item of \<open>array('f')\<close> a binary32
  value. Both are carried by \<open>ieee\<close>: a finite value is its sign bit (\<open>True\<close> for minus)
  and its magnitude, an exact rational; so \<open>Finite True 0\<close> is \<open>-0.0\<close>.
  Arithmetic computes the exact result and rounds it to the nearest representable
  magnitude, ties to the even significand; a rounded magnitude of \<open>2 ^ emax\<close> or more
  is an infinity. \<open>prec\<close> is the number of significand bits and \<open>qmin\<close> the exponent of
  the smallest subnormal.
\<close>

datatype ieee = Finite bool rat | Infinity bool | NaN

function bitlen :: "int \<Rightarrow> int" where
  "bitlen n = (if n \<le> 0 then 0 else 1 + bitlen (n div 2))"
  by pat_completeness auto
termination
  by (relation "measure nat") auto

declare bitlen.simps [simp del]

definition pow2 :: "int \<Rightarrow> rat" where
  "pow2 e = (if 0 \<le> e then 2 ^ nat e else 1 / 2 ^ nat (- e))"

definition floor_log2 :: "rat \<Rightarrow> int" where
  "floor_log2 m =
     (let (p, q) = quotient_of m;
          e0 = bitlen p - bitlen q
      in if pow2 e0 \<le> m then e0 else e0 - 1)"

definition round_half_even :: "rat \<Rightarrow> int" where
  "round_half_even r =
     (let f = \<lfloor>r\<rfloor>; d = r - of_int f
      in if d < 1 / 2 then f
         else if 1 / 2 < d then f + 1
         else if even f then f else f + 1)"

definition round_mag :: "nat \<Rightarrow> int \<Rightarrow> rat \<Rightarrow> rat" where
  "round_mag prec qmin m =
     (if m = 0 then 0
      else let q = max (floor_log2 m - (int prec - 1)) qmin
           in of_int (round_half_even (m / pow2 q)) * pow2 q)"

definition round_binary :: "nat \<Rightarrow> int \<Rightarrow> int \<Rightarrow> bool \<Rightarrow> rat \<Rightarrow> ieee" where
  "round_binary prec qmin emax s m =
     (let r = round_mag prec qmin m
      in if pow2 emax \<le> r then Infinity s else Finite s r)"

definition round_double :: "bool \<Rightarrow> rat \<Rightarrow> ieee" where
  "round_double = round_binary 53 (- 1074) 1024"

definition round_single :: "bool \<Rightarrow> rat \<Rightarrow> ieee" where
  "round_single = round_binary 24 (- 149) 128"

text \<open>The value of a finite float, and Python's \<open>==\<close> on floats (\<open>-0.0 == 0.0\<close>, NaN
  equal to nothing).\<close>

fun valof :: "ieee \<Rightarrow> rat" where
  "valof (Finite s m) = (if s then - m else m)"
| "valof (Infinity s) = 0"
| "valof NaN = 0"

fun float_eq :: "ieee \<Rightarrow> ieee \<Rightarrow> bool" where
  "float_eq (Finite s m) (Finite s' m') = (valof (Finite s m) = valof (Finite s' m'))"
| "float_eq (Infinity s) (Infinity s') = (s = s')"
| "float_eq x y = False"

fun float_neg :: "ieee \<Rightarrow> ieee" where
  "float_neg (Finite s m) = Finite (\<not> s) m"
| "float_neg (Infinity s) = Infinity (\<not> s)"
| "float_neg NaN = NaN"

text \<open>\<open>x / y\<close> on two floats: Python raises \<open>ZeroDivisionError\<close> for a zero divisor and
  otherwise returns the IEEE 754 quotient.\<close>

fun float_truediv :: "ieee \<Rightarrow> ieee \<Rightarrow> py_error + ieee" where
  "float_truediv x (Finite s' m') =
     (if m' = 0 then Inl ZeroDivisionError
      else case x of
             Finite s m \<Rightarrow> Inr (round_double (s \<noteq> s') (m / m'))
           | Infinity s \<Rightarrow> Inr (Infinity (s \<noteq> s'))
           | NaN \<Rightarrow> Inr NaN)"
| "float_truediv x (Infinity s') =
     (case x of
        Finite s m \<Rightarrow> Inr (Finite (s \<noteq> s') 0)
      | Infinity s \<Rightarrow> Inr NaN
      | NaN \<Rightarrow> Inr NaN)"
| "float_truediv x NaN = Inr NaN"

text \<open>The C cast of a double to \<open>float\<close> that stores an item into \<open>array('f')\<close>.\<close>

fun to_float32 :: "ieee \<Rightarrow> ieee" where
  "to_float32 (Finite s m) = round_single s m"
| "to_float32 (Infinity s) = Infinity s"
| "to_float32 NaN = NaN"

subsection \<open>Values and coercions\<close>

text \<open>
  The \<open>sqlite3\<close> module hands every cell to Python as \<open>None\<close>, an \<open>int\<close>, a \<open>float\<close>, a
  \<open>str\<close> or a \<open>bytes\<close> object, whatever the declared type of the column.
\<close>

datatype py_value =
    PyNone
  | PyInt int
  | PyFloat ieee
  | PyStr string
  | PyBytes string

text \<open>
  The interpreter's reading of a number out of text, and its printing of a float or of
  bytes, are not part of the program: they are parameters. A parser returns \<open>None\<close>
  where Python raises \<open>ValueError\<close>.
\<close>

record pyrt =
  int_of_str :: "string \<Rightarrow> int option"
  int_of_bytes :: "string \<Rightarrow> int option"
  float_of_str :: "string \<Rightarrow> ieee option"
  float_of_bytes :: "string \<Rightarrow> ieee option"
  str_of_float :: "ieee \<Rightarrow> string"
  str_of_bytes :: "string \<Rightarrow> string"

definition parsed :: "'a option \<Rightarrow> py_error + 'a" where
  "parsed r = (case r of None \<Rightarrow> Inl ValueError | Some v \<Rightarrow> Inr v)"

text \<open>\<open>int(v)\<close>: a float is truncated towards zero.\<close>

fun py_int :: "pyrt \<Rightarrow> py_value \<Rightarrow> py_error + int" where
  "py_int rt PyNone = Inl TypeError"
| "py_int rt (PyInt i) = Inr i"
| "py_int rt (PyFloat (Finite s m)) = Inr (if s then - \<lfloor>m\<rfloor> else \<lfloor>m\<rfloor>)"
| "py_int rt (PyFloat (Infinity s)) = Inl OverflowError"
| "py_int rt (PyFloat NaN) = Inl ValueError"
| "py_int rt (PyStr s) = parsed (int_of_str rt s)"
| "py_int rt (PyBytes b) = parsed (int_of_bytes rt b)"

text \<open>\<open>float(v)\<close>: an \<open>int\<close> is rounded to the nearest double, \<open>OverflowError\<close> when
  there is none.\<close>

fun py_float :: "pyrt \<Rightarrow> py_value \<Rightarrow> py_error + ieee" where
  "py_float rt PyNone = Inl TypeError"
| "py_float rt (PyInt i) =
     (case round_double (i < 0) (of_int \<bar>i\<bar>) of
        Finite s m \<Rightarrow> Inr (Finite s m)
      | Infinity s \<Rightarrow> Inl OverflowError
      | NaN \<Rightarrow> Inl OverflowError)"
| "py_float rt (PyFloat f) = Inr f"
| "py_float rt (PyStr s) = parsed (float_of_str rt s)"
| "py_float rt (PyBytes b) = parsed (float_of_bytes rt b)"

text \<open>\<open>str(v)\<close>; an \<open>int\<close> prints in decimal.\<close>

fun digits :: "nat \<Rightarrow> string" where
  "digits n = (if n < 10 then [char_of (48 + n)] else digits (n div 10) @ [char_of (48 + n mod 10)])"

declare digits.simps [simp del]

definition str_of_int :: "int \<Rightarrow> string" where
  "str_of_int i = (if i < 0 then CHR ''-'' # digits (nat (- i)) else digits (nat i))"

fun py_str :: "pyrt \<Rightarrow> py_value \<Rightarrow> string" where
  "py_str rt PyNone = ''None''"
| "py_str rt (PyInt i) = str_of_int i"
| "py_str rt (PyFloat f) = str_of_float rt f"
| "py_str rt (PyStr s) = s"
| "py_str rt (PyBytes b) = str_of_bytes rt b"

text \<open>Truth of an optional string (\<open>None\<close> and \<open>""\<close> are false), as \<open>or\<close>, \<open>if\<close> and
  \<open>not\<close> test it.\<close>

definition truthy :: "string option \<Rightarrow> bool" where
  "truthy v = (case v of None \<Rightarrow> False | Some s \<Rightarrow> s \<noteq> [])"

definition py_or :: "string option \<Rightarrow> string option \<Rightarrow> string option" where
  "py_or a b = (if truthy a then a else b)"

section \<open>The coordinate transform\<close>

definition METERS_PER_LY :: ieee where
  "METERS_PER_LY = Finite False 9460730472580800"

definition transform_xyz ::
  "pyrt \<Rightarrow> py_value \<Rightarrow> py_value \<Rightarrow> py_value \<Rightarrow> py_error + (ieee \<times> ieee \<times> ieee)" where
  "transform_xyz rt xm ym zm =
     bind_err (py_float rt xm) (\<lambda>xf. bind_err (float_truediv xf METERS_PER_LY) (\<lambda>xly.
     bind_err (py_float rt ym) (\<lambda>yf. bind_err (float_truediv yf METERS_PER_LY) (\<lambda>yly.
     bind_err (py_float rt zm) (\<lambda>zf. bind_err (float_truediv zf METERS_PER_LY) (\<lambda>zly.
     Inr (xly, zly, float_neg yly)))))))"

section \<open>The database\<close>

text \<open>
  The program sees the database through four queries of a cursor; each may raise.
  \<open>db_tables\<close> is \<open>SELECT name FROM sqlite_master WHERE type='table'\<close>, \<open>db_table_info\<close>
  the column names of \<open>PRAGMA table_info(t)\<close>, \<open>db_select\<close> is
  \<open>SELECT c1, ..., cn FROM t\<close> and \<open>db_select_st\<close> is \<open>SELECT a as s, b as t FROM t\<close>.
  A \<open>sqlite3.Row\<close> is the list of its keys with their values.
\<close>

type_synonym row = "(string \<times> py_value) list"

record db =
  db_tables :: "py_error + string list"
  db_table_info :: "string \<Rightarrow> py_error + string list"
  db_select :: "string list \<Rightarrow> string \<Rightarrow> py_error + row list"
  db_select_st :: "string \<Rightarrow> string \<Rightarrow> string \<Rightarrow> py_error + (py_value \<times> py_value) list"

text \<open>\<open>row[key]\<close>: the first column whose name equals the key, or equals it up to the
  case of ASCII letters when both are ASCII; \<open>IndexError\<close> when there is none.\<close>

definition ascii_lower :: "char \<Rightarrow> char" where
  "ascii_lower c = (let n = (of_char c :: nat) in if 65 \<le> n \<and> n \<le> 90 then char_of (n + 32) else c)"

definition is_ascii :: "string \<Rightarrow> bool" where
  "is_ascii s = list_all (\<lambda>c. (of_char c :: nat) < 128) s"

definition equal_ignore_case :: "string \<Rightarrow> string \<Rightarrow> bool" where
  "equal_ignore_case l r =
     (l = r \<or> (is_ascii l \<and> is_ascii r \<and> map ascii_lower l = map ascii_lower r))"

fun row_get :: "row \<Rightarrow> string \<Rightarrow> py_error + py_value" where
  "row_get [] key = Inl IndexError"
| "row_get ((k, v) # r) key = (if equal_ignore_case key k then Inr v else row_get r key)"

definition row_keys :: "row \<Rightarrow> string list" where
  "row_keys r = map fst r"

definition infer_table_cur :: "db \<Rightarrow> string list \<Rightarrow> py_error + string option" where
  "infer_table_cur cur needle_keywords =
     bind_err (db_tables cur) (\<lambda>tables. Inr (infer_table tables needle_keywords))"

definition get_cols :: "db \<Rightarrow> string \<Rightarrow> py_error + string list" where
  "get_cols cur table = db_table_info cur table"

section \<open>The pipeline\<close>

subsection \<open>Arguments\<close>

text \<open>The parsed command line; \<open>--db\<close> is the database itself. An option that was not
  given is \<open>None\<close>.\<close>

record args =
  arg_out :: string
  arg_systems_table :: "string option"
  arg_sys_id_col :: "string option"
  arg_sys_name_col :: "string option"
  arg_sys_x_col :: "string option"
  arg_sys_y_col :: "string option"
  arg_sys_z_col :: "string option"
  arg_jumps_table :: "string option"
  arg_jump_from_col :: "string option"
  arg_jump_to_col :: "string option"

subsection \<open>Loading the systems\<close>

type_synonym system = "int \<times> string \<times> ieee \<times> ieee \<times> ieee"

record sys_columns =
  id_col :: string
  name_col :: "string option"
  x_col :: "string option"
  y_col :: "string option"
  z_col :: "string option"

text \<open>\<open>a or find_col(...)\<close>, and the same with the first column as a last resort
  (\<open>sys_cols[0]\<close> raises \<open>IndexError\<close> on an empty list).\<close>

definition resolve_id_col :: "string option \<Rightarrow> string list \<Rightarrow> py_error + string" where
  "resolve_id_col override sys_cols =
     (let c = py_or override
                (find_col sys_cols [''id'', ''system_id'', ''solarsystemid'', ''smart_object_id''])
      in if truthy c then Inr (the c)
         else (case sys_cols of [] \<Rightarrow> Inl IndexError | c0 # _ \<Rightarrow> Inr c0))"

definition resolve_sys_columns :: "args \<Rightarrow> string list \<Rightarrow> py_error + sys_columns" where
  "resolve_sys_columns a sys_cols =
     bind_err (resolve_id_col (arg_sys_id_col a) sys_cols) (\<lambda>idc.
     Inr \<lparr> id_col = idc,
           name_col = py_or (arg_sys_name_col a) (find_col sys_cols [''name'', ''system_name'', ''label'']),
           x_col = py_or (arg_sys_x_col a)
                     (find_col sys_cols [''x'', ''posx'', ''position_x'', ''world_x'', ''centerx'']),
           y_col = py_or (arg_sys_y_col a)
                     (find_col sys_cols [''y'', ''posy'', ''position_y'', ''world_y'', ''centery'']),
           z_col = py_or (arg_sys_z_col a)
                     (find_col sys_cols [''z'', ''posz'', ''position_z'', ''world_z'', ''centerz'']) \<rparr>)"

text \<open>The projection list of the \<open>SELECT\<close>: the id column, then each resolved column.\<close>

definition opt_col :: "string option \<Rightarrow> string list" where
  "opt_col c = (if truthy c then [the c] else [])"

definition select_list :: "sys_columns \<Rightarrow> string list" where
  "select_list sc = [id_col sc] @ opt_col (name_col sc) @ opt_col (x_col sc)
                      @ opt_col (y_col sc) @ opt_col (z_col sc)"

text \<open>\<open>float(row[c]) if c else 0.0\<close>.\<close>

definition coord :: "pyrt \<Rightarrow> row \<Rightarrow> string option \<Rightarrow> py_error + ieee" where
  "coord rt r c =
     (if truthy c then bind_err (row_get r (the c)) (py_float rt) else Inr (Finite False 0))"

text \<open>\<open>is_filtered_system\<close> on a value: \<open>re.match\<close> with a \<open>str\<close> pattern raises
  \<open>TypeError\<close> on anything but a \<open>str\<close>.\<close>

fun match_name :: "py_value \<Rightarrow> py_error + (string \<times> bool)" where
  "match_name (PyStr nm) = Inr (nm, is_filtered_system nm)"
| "match_name v = Inl TypeError"

text \<open>\<open>row[name_col] if (name_col and name_col in row.keys()) else str(sid)\<close>, and one
  turn of the loop over the rows: \<open>None\<close> is the \<open>continue\<close> of an excluded name,
  \<open>Some\<close> the tuple appended to \<open>systems\<close>.\<close>

definition name_value :: "pyrt \<Rightarrow> sys_columns \<Rightarrow> row \<Rightarrow> py_value \<Rightarrow> py_error + py_value" where
  "name_value rt sc r sid =
     (if truthy (name_col sc) \<and> the (name_col sc) \<in> set (row_keys r)
      then row_get r (the (name_col sc)) else Inr (PyStr (py_str rt sid)))"

definition load_row :: "pyrt \<Rightarrow> sys_columns \<Rightarrow> row \<Rightarrow> py_error + system option" where
  "load_row rt sc r =
     bind_err (row_get r (id_col sc)) (\<lambda>sid.
     bind_err (name_value rt sc r sid) (\<lambda>nmv.
     bind_err (match_name nmv) (\<lambda>(nm, filtered).
     if filtered then Inr None
     else
       bind_err (coord rt r (x_col sc)) (\<lambda>xv.
       bind_err (coord rt r (y_col sc)) (\<lambda>yv.
       bind_err (coord rt r (z_col sc)) (\<lambda>zv.
       bind_err (py_int rt sid) (\<lambda>i.
       Inr (Some (i, nm, xv, yv, zv)))))))))"

fun load_systems ::
  "pyrt \<Rightarrow> sys_columns \<Rightarrow> row list \<Rightarrow> system list \<Rightarrow> nat \<Rightarrow> py_error + (system list \<times> nat)" where
  "load_systems rt sc [] systems filtered_count = Inr (systems, filtered_count)"
| "load_systems rt sc (r # rows) systems filtered_count =
     (case load_row rt sc r of
        Inl e \<Rightarrow> Inl e
      | Inr None \<Rightarrow> load_systems rt sc rows systems (filtered_count + 1)
      | Inr (Some sys) \<Rightarrow> load_systems rt sc rows (systems @ [sys]) filtered_count)"

subsection \<open>Loading the jumps\<close>

text \<open>The local function \<open>contains\<close>: the first column whose lower-case name contains
  every part.\<close>

fun contains_parts :: "string list \<Rightarrow> string list \<Rightarrow> string option" where
  "contains_parts [] parts = None"
| "contains_parts (c # cs) parts =
     (if list_all (\<lambda>p. contains_str p (lower c)) parts then Some c else contains_parts cs parts)"

definition resolve_source_col :: "args \<Rightarrow> string list \<Rightarrow> string option" where
  "resolve_source_col a jmp_cols =
     py_or (py_or (py_or (arg_jump_from_col a) (contains_parts jmp_cols [''from'', ''id'']))
                  (contains_parts jmp_cols [''a'', ''id'']))
           (contains_parts jmp_cols [''source''])"

definition resolve_target_col :: "args \<Rightarrow> string list \<Rightarrow> string option" where
  "resolve_target_col a jmp_cols =
     py_or (py_or (py_or (arg_jump_to_col a) (contains_parts jmp_cols [''to'', ''id'']))
                  (contains_parts jmp_cols [''b'', ''id'']))
           (contains_parts jmp_cols [''target''])"

fun load_jump_rows ::
  "pyrt \<Rightarrow> (py_value \<times> py_value) list \<Rightarrow> (int \<times> int) list \<Rightarrow> py_error + (int \<times> int) list" where
  "load_jump_rows rt [] jumps = Inr jumps"
| "load_jump_rows rt ((s, t) # rs) jumps =
     (if s \<noteq> PyNone \<and> t \<noteq> PyNone
      then bind_err (py_int rt s) (\<lambda>a. bind_err (py_int rt t) (\<lambda>b.
             load_jump_rows rt rs (jumps @ [(a, b)])))
      else load_jump_rows rt rs jumps)"

definition load_jumps :: "pyrt \<Rightarrow> args \<Rightarrow> db \<Rightarrow> string option \<Rightarrow> py_error + (int \<times> int) list" where
  "load_jumps rt a cur jumps_table =
     (if truthy jumps_table then
        bind_err (get_cols cur (the jumps_table)) (\<lambda>jmp_cols.
        let source_col = resolve_source_col a jmp_cols;
            target_col = resolve_target_col a jmp_cols
        in if truthy source_col \<and> truthy target_col
           then bind_err (db_select_st cur (the source_col) (the target_col) (the jumps_table))
                  (\<lambda>rs. load_jump_rows rt rs [])
           else Inr [])
      else Inr [])"

subsection \<open>Everything read from the database\<close>

record loaded =
  ld_systems_table :: "string option"
  ld_jumps_table :: "string option"
  ld_systems :: "system list"
  ld_filtered_count :: nat
  ld_jumps :: "(int \<times> int) list"

text \<open>\<open>args.systems_table or infer_table(cur, ...)\<close>: the query runs only when the
  override is false.\<close>

definition table_or_infer :: "string option \<Rightarrow> db \<Rightarrow> string list \<Rightarrow> py_error + string option" where
  "table_or_infer override cur needle_keywords =
     (if truthy override then Inr override else infer_table_cur cur needle_keywords)"

definition load :: "pyrt \<Rightarrow> args \<Rightarrow> db \<Rightarrow> py_error + loaded" where
  "load rt a cur =
     bind_err (table_or_infer (arg_systems_table a) cur [''system'']) (\<lambda>systems_table.
     bind_err (table_or_infer (arg_jumps_table a) cur [''jump'', ''gate'', ''link'']) (\<lambda>jumps_table.
     if \<not> truthy systems_table
     then Inl (SystemExit ''Could not find systems table; use --systems-table to specify.'')
     else
       bind_err (get_cols cur (the systems_table)) (\<lambda>sys_cols.
       bind_err (resolve_sys_columns a sys_cols) (\<lambda>sc.
       bind_err (db_select cur (select_list sc) (the systems_table)) (\<lambda>rows.
       bind_err (load_systems rt sc rows [] 0) (\<lambda>(systems, filtered_count).
       bind_err (load_jumps rt a cur jumps_table) (\<lambda>jumps.
       Inr \<lparr> ld_systems_table = systems_table, ld_jumps_table = jumps_table,
             ld_systems = systems, ld_filtered_count = filtered_count,
             ld_jumps = jumps \<rparr>)))))))"

subsection \<open>Building the arrays\<close>

text \<open>
  \<open>array('I')\<close> holds C \<open>unsigned int\<close> items, 32 bits wide on the platforms Python runs
  on; storing an \<open>int\<close> outside \<open>0 .. 2^32 - 1\<close> raises \<open>OverflowError\<close>. \<open>extend\<close> with a
  list appends its items one after the other. \<open>array('f')\<close> stores each float by a C cast.
\<close>

definition append_I :: "32 word list \<Rightarrow> int \<Rightarrow> py_error + 32 word list" where
  "append_I arr v = (if 0 \<le> v \<and> v < 2 ^ 32 then Inr (arr @ [word_of_int v]) else Inl OverflowError)"

fun extend_I :: "32 word list \<Rightarrow> int list \<Rightarrow> py_error + 32 word list" where
  "extend_I arr [] = Inr arr"
| "extend_I arr (v # vs) = bind_err (append_I arr v) (\<lambda>arr'. extend_I arr' vs)"

definition extend_f :: "ieee list \<Rightarrow> ieee list \<Rightarrow> ieee list" where
  "extend_f arr vs = arr @ map to_float32 vs"

text \<open>A \<open>dict\<close> keeps its keys in the order of their first insertion; storing under a
  key that is present replaces the value in place.\<close>

fun dict_set :: "(string \<times> string) list \<Rightarrow> string \<Rightarrow> string \<Rightarrow> (string \<times> string) list" where
  "dict_set [] k v = [(k, v)]"
| "dict_set ((k', v') # d) k v = (if k' = k then (k, v) # d else (k', v') # dict_set d k v)"

record arrays =
  ar_ids :: "32 word list"
  ar_positions :: "ieee list"
  ar_names :: "(string \<times> string) list"

fun build_arrays :: "pyrt \<Rightarrow> system list \<Rightarrow> arrays \<Rightarrow> py_error + arrays" where
  "build_arrays rt [] ar = Inr ar"
| "build_arrays rt ((sid, nm, x, y, z) # systems) ar =
     bind_err (append_I (ar_ids ar) sid) (\<lambda>ids.
     let names = dict_set (ar_names ar) (str_of_int sid) nm
     in bind_err (transform_xyz rt (PyFloat x) (PyFloat y) (PyFloat z)) (\<lambda>(xt, yt, zt).
        build_arrays rt systems
          \<lparr> ar_ids = ids, ar_positions = extend_f (ar_positions ar) [xt, yt, zt],
            ar_names = names \<rparr>))"

text \<open>The loop over the loaded jumps, with the set of the loaded system ids.\<close>

fun filter_jumps ::
  "int set \<Rightarrow> (int \<times> int) list \<Rightarrow> 32 word list \<Rightarrow> nat \<Rightarrow> py_error + (32 word list \<times> nat)" where
  "filter_jumps valid_system_ids [] flat_jumps filtered_jumps = Inr (flat_jumps, filtered_jumps)"
| "filter_jumps valid_system_ids ((a, b) # jumps) flat_jumps filtered_jumps =
     (if a \<in> valid_system_ids \<and> b \<in> valid_system_ids
      then bind_err (extend_I flat_jumps [a, b]) (\<lambda>flat.
             filter_jumps valid_system_ids jumps flat filtered_jumps)
      else filter_jumps valid_system_ids jumps flat_jumps (filtered_jumps + 1))"

record built =
  bt_ids :: "32 word list"
  bt_positions :: "ieee list"
  bt_names :: "(string \<times> string) list"
  bt_flat_jumps :: "32 word list"
  bt_filtered_jumps :: nat

definition build :: "pyrt \<Rightarrow> system list \<Rightarrow> (int \<times> int) list \<Rightarrow> py_error + built" where
  "build rt systems jumps =
     (let valid_system_ids = set (map fst systems)
      in bind_err (build_arrays rt systems \<lparr> ar_ids = [], ar_positions = [], ar_names = [] \<rparr>) (\<lambda>ar.
         bind_err (filter_jumps valid_system_ids jumps [] 0) (\<lambda>(flat_jumps, filtered_jumps).
         Inr \<lparr> bt_ids = ar_ids ar, bt_positions = ar_positions ar, bt_names = ar_names ar,
               bt_flat_jumps = flat_jumps, bt_filtered_jumps = filtered_jumps \<rparr>)))"

subsection \<open>Writing the assets\<close>

text \<open>
  The manifest is its two counts; the schema and the description of the coordinate
  system are the same text in every run. A file holds the bytes of an array
  (\<open>tobytes\<close>) or the text of a JSON document (\<open>json.dumps\<close>); each is held here as the
  value that is serialised. The file system is the set of directories and the files
  by directory and name. Creating the directory and writing a file are taken to
  succeed: a failure of the operating system or of the text encoding while a file is
  written is outside the model.
\<close>

record manifest =
  counts_systems :: nat
  counts_jumps :: nat

datatype file_content =
    FloatArrayBytes "ieee list"
  | UIntArrayBytes "32 word list"
  | NamesJson "(string \<times> string) list"
  | ManifestJson manifest

record fs =
  fs_dirs :: "string set"
  fs_files :: "string \<times> string \<Rightarrow> file_content option"

definition mkdir :: "fs \<Rightarrow> string \<Rightarrow> fs" where
  "mkdir f d = f \<lparr> fs_dirs := insert d (fs_dirs f) \<rparr>"

definition write_file :: "fs \<Rightarrow> string \<Rightarrow> string \<Rightarrow> file_content \<Rightarrow> fs" where
  "write_file f d name c = f \<lparr> fs_files := (fs_files f)((d, name) \<mapsto> c) \<rparr>"

definition write_assets :: "fs \<Rightarrow> string \<Rightarrow> loaded \<Rightarrow> built \<Rightarrow> fs" where
  "write_assets f0 out_dir ld bt =
     (let f1 = write_file f0 out_dir ''systems_positions.bin'' (FloatArrayBytes (bt_positions bt));
          f2 = write_file f1 out_dir ''systems_ids.bin'' (UIntArrayBytes (bt_ids bt));
          f3 = write_file f2 out_dir ''systems_names.json'' (NamesJson (bt_names bt));
          f4 = write_file f3 out_dir ''jumps.bin'' (UIntArrayBytes (bt_flat_jumps bt));
          manifest = \<lparr> counts_systems = length (ld_systems ld),
                       counts_jumps = length (ld_jumps ld) \<rparr>
      in write_file f4 out_dir ''manifest.json'' (ManifestJson manifest))"

text \<open>The summary printed at the end of a successful run. \<open>sm_out\<close> is the output
  directory as it was given; the program prints the absolute path that the operating
  system resolves it to.\<close>

record summary =
  sm_systems_table :: "string option"
  sm_jumps_table :: "string option"
  sm_systems_count :: nat
  sm_filtered_systems :: nat
  sm_jumps_count :: nat
  sm_filtered_jumps :: nat
  sm_out :: string

definition summarise :: "string \<Rightarrow> loaded \<Rightarrow> built \<Rightarrow> summary" where
  "summarise out_dir ld bt =
     \<lparr> sm_systems_table = ld_systems_table ld, sm_jumps_table = ld_jumps_table ld,
       sm_systems_count = length (ld_systems ld), sm_filtered_systems = ld_filtered_count ld,
       sm_jumps_count = length (bt_flat_jumps bt) div 2,
       sm_filtered_jumps = bt_filtered_jumps bt, sm_out = out_dir \<rparr>"

subsection \<open>main\<close>

text \<open>A run takes the file system it finds and returns the one it leaves, with the
  printed summary or the exception that ended it.\<close>

definition main :: "pyrt \<Rightarrow> args \<Rightarrow> db \<Rightarrow> fs \<Rightarrow> (py_error + summary) \<times> fs" where
  "main rt a cur f =
     (let out_dir = arg_out a;
          f0 = mkdir f out_dir
      in case load rt a cur of
           Inl e \<Rightarrow> (Inl e, f0)
         | Inr ld \<Rightarrow>
             (case build rt (ld_systems ld) (ld_jumps ld) of
                Inl e \<Rightarrow> (Inl e, f0)
              | Inr bt \<Rightarrow> (Inr (summarise out_dir ld bt), write_assets f0 out_dir ld bt)))"

section \<open>Notions used in the statements\<close>

text \<open>The quotient of a float by \<open>METERS_PER_LY\<close>, the three items a system adds to the
  position array, and the range of an \<open>array('I')\<close> item.\<close>

definition LY :: rat where
  "LY = 9460730472580800"

definition div_ly :: "ieee \<Rightarrow> ieee" where
  "div_ly x = (case x of Finite s m \<Rightarrow> round_double s (m / LY)
               | Infinity s \<Rightarrow> Infinity s | NaN \<Rightarrow> NaN)"

definition position3 :: "system \<Rightarrow> ieee list" where
  "position3 sys = (case sys of (sid, nm, x, y, z) \<Rightarrow>
      map to_float32 [div_ly x, div_ly z, float_neg (div_ly y)])"

definition in_u32 :: "int \<Rightarrow> bool" where
  "in_u32 v = (0 \<le> v \<and> v < 2 ^ 32)"

text \<open>Python's \<open>==\<close> on two triples of floats.\<close>

definition triple_eq :: "ieee \<times> ieee \<times> ieee \<Rightarrow> ieee \<times> ieee \<times> ieee \<Rightarrow> bool" where
  "triple_eq p q = (case p of (a, b, c) \<Rightarrow> case q of (a', b', c') \<Rightarrow>
      float_eq a a' \<and> float_eq b b' \<and> float_eq c c')"

text \<open>A jump survives when both its ends are among the given ids; a list of jumps laid
  out flat, source then target; and a flat array read back two items at a time.\<close>

definition surviving_jump :: "int set \<Rightarrow> int \<times> int \<Rightarrow> bool" where
  "surviving_jump valid j = (fst j \<in> valid \<and> snd j \<in> valid)"

definition flatten :: "(int \<times> int) list \<Rightarrow> 32 word list" where
  "flatten js = concat (map (\<lambda>(a, b). [word_of_int a, word_of_int b]) js)"

fun pairs_of :: "32 word list \<Rightarrow> (int \<times> int) list" where
  "pairs_of (a # b # r) = (uint a, uint b) # pairs_of r"
| "pairs_of r = []"

text \<open>The rows that the loop over the systems keeps, in the order of the rows.\<close>

definition kept :: "pyrt \<Rightarrow> sys_columns \<Rightarrow> row list \<Rightarrow> system list" where
  "kept rt sc rows =
     List.map_filter (\<lambda>r. case load_row rt sc r of Inr (Some sys) \<Rightarrow> Some sys | _ \<Rightarrow> None) rows"

definition asset_names :: "string list" where
  "asset_names = [''systems_positions.bin'', ''systems_ids.bin'', ''systems_names.json'',
                  ''jumps.bin'', ''manifest.json'']"

section \<open>Example databases\<close>

text \<open>
  A database of plain tables, for the examples: each table has a name, its column
  names and its rows. Names are found as SQLite finds identifiers, without regard to
  the case of ASCII letters; a query for a missing table or column raises, and
  \<open>PRAGMA table_info\<close> of a missing table has no rows.
\<close>

record table =
  t_name :: string
  t_cols :: "string list"
  t_rows :: "py_value list list"

fun find_table :: "table list \<Rightarrow> string \<Rightarrow> table option" where
  "find_table [] n = None"
| "find_table (t # ts) n = (if equal_ignore_case n (t_name t) then Some t else find_table ts n)"

fun cell :: "string list \<Rightarrow> py_value list \<Rightarrow> string \<Rightarrow> (string \<times> py_value) option" where
  "cell (k # ks) (v # vs) c = (if equal_ignore_case c k then Some (k, v) else cell ks vs c)"
| "cell ks vs c = None"

fun project :: "string list \<Rightarrow> py_value list \<Rightarrow> string list \<Rightarrow> row option" where
  "project ks vs [] = Some []"
| "project ks vs (c # cs) =
     (case cell ks vs c of None \<Rightarrow> None
      | Some kv \<Rightarrow> (case project ks vs cs of None \<Rightarrow> None | Some r \<Rightarrow> Some (kv # r)))"

fun all_some :: "'a option list \<Rightarrow> 'a list option" where
  "all_some [] = Some []"
| "all_some (None # xs) = None"
| "all_some (Some x # xs) = (case all_some xs of None \<Rightarrow> None | Some ys \<Rightarrow> Some (x # ys))"

definition select_from :: "table list \<Rightarrow> string list \<Rightarrow> string \<Rightarrow> py_error + row list" where
  "select_from ts cs n =
     (case find_table ts n of None \<Rightarrow> Inl DatabaseError
      | Some t \<Rightarrow> (case all_some (map (\<lambda>vs. project (t_cols t) vs cs) (t_rows t)) of
                    None \<Rightarrow> Inl DatabaseError | Some rs \<Rightarrow> Inr rs))"

definition st_of_row :: "row \<Rightarrow> py_value \<times> py_value" where
  "st_of_row r = (case r of [(_, s), (_, t)] \<Rightarrow> (s, t) | _ \<Rightarrow> (PyNone, PyNone))"

definition db_of_tables :: "table list \<Rightarrow> db" where
  "db_of_tables ts =
     \<lparr> db_tables = Inr (map t_name ts),
       db_table_info = (\<lambda>n. case find_table ts n of None \<Rightarrow> Inr [] | Some t \<Rightarrow> Inr (t_cols t)),
       db_select = select_from ts,
       db_select_st = (\<lambda>a b n. case select_from ts [a, b] n of Inl e \<Rightarrow> Inl e
                          | Inr rs \<Rightarrow> Inr (map st_of_row rs)) \<rparr>"

text \<open>A runtime for the examples. It reads a text of decimal digits as Python does and
  takes every other text as not a number; the examples hold no other numeric text,
  and print no float and no bytes.\<close>

definition digits_value :: "string \<Rightarrow> int option" where
  "digits_value s =
     (if s \<noteq> [] \<and> list_all is_digit s
      then Some (foldl (\<lambda>n c. 10 * n + (int (of_char c) - 48)) 0 s) else None)"

definition example_rt :: pyrt where
  "example_rt =
     \<lparr> int_of_str = digits_value, int_of_bytes = digits_value,
       float_of_str = (\<lambda>s. map_option (\<lambda>i. round_double False (of_int i)) (digits_value s)),
       float_of_bytes = (\<lambda>s. map_option (\<lambda>i. round_double False (of_int i)) (digits_value s)),
       str_of_float = (\<lambda>f. ''<float>''), str_of_bytes = (\<lambda>b. ''<bytes>'') \<rparr>"

definition no_overrides :: "string \<Rightarrow> args" where
  "no_overrides out =
     \<lparr> arg_out = out, arg_systems_table = None, arg_sys_id_col = None,
       arg_sys_name_col = None, arg_sys_x_col = None, arg_sys_y_col = None,
       arg_sys_z_col = None, arg_jumps_table = None, arg_jump_from_col = None,
       arg_jump_to_col = None \<rparr>"

definition empty_fs :: fs where
  "empty_fs = \<lparr> fs_dirs = {}, fs_files = (\<lambda>p. None) \<rparr>"

definition zero :: py_value where
  "zero = PyFloat (Finite False 0)"

text \<open>The scenario of three systems and three jumps: the second system has an
  excluded name, the third jump leads to an id that no system has.\<close>

definition scenario_db :: db where
  "scenario_db = db_of_tables
     [\<lparr> t_name = ''systems'', t_cols = [''id'', ''name'', ''x'', ''y'', ''z''],
        t_rows = [[PyInt 1, PyStr ''Sol'', zero, zero, zero],
                  [PyInt 2, PyStr ''V-001'', zero, zero, zero],
                  [PyInt 3, PyStr ''Alpha'', PyFloat METERS_PER_LY, zero, zero]] \<rparr>,
      \<lparr> t_name = ''jumps'', t_cols = [''from_id'', ''to_id''],
        t_rows = [[PyInt 1, PyInt 2], [PyInt 1, PyInt 3], [PyInt 3, PyInt 99]] \<rparr>]"

text \<open>A database with one table and no table of jumps; its \<open>base_id\<close> column holds the id
  of another system.\<close>

definition lone_table_db :: db where
  "lone_table_db = db_of_tables
     [\<lparr> t_name = ''systems'', t_cols = [''id'', ''name'', ''x'', ''y'', ''z'', ''base_id''],
        t_rows = [[PyInt 1, PyStr ''Sol'', zero, zero, zero, PyInt 1],
                  [PyInt 3, PyStr ''Alpha'', PyFloat METERS_PER_LY, zero, zero, PyInt 1]] \<rparr>]"



definition excluded_bad_row :: row where
  "excluded_bad_row =
     [(''id'', PyStr ''abc''), (''name'', PyStr ''AD123''), (''x'', PyNone), (''y'', PyStr ''far''),
      (''z'', PyNone)]"

text \<open>The run of the scenario from an empty file system, with what it loads, builds
  and prints, and the columns it resolves.\<close>

definition scenario_args :: args where
  "scenario_args = no_overrides ''out''"

definition scenario_loaded :: loaded where
  "scenario_loaded =
     \<lparr> ld_systems_table = Some ''systems'', ld_jumps_table = Some ''jumps'',
       ld_systems = [(1, ''Sol'', Finite False 0, Finite False 0, Finite False 0),
                     (3, ''Alpha'', Finite False 9460730472580800, Finite False 0, Finite False 0)],
       ld_filtered_count = 1, ld_jumps = [(1, 2), (1, 3), (3, 99)] \<rparr>"

definition scenario_built :: built where
  "scenario_built =
     \<lparr> bt_ids = [1, 3],
       bt_positions = [Finite False 0, Finite False 0, Finite True 0,
                       Finite False 1, Finite False 0, Finite True 0],
       bt_names = [(''1'', ''Sol''), (''3'', ''Alpha'')],
       bt_flat_jumps = [1, 3], bt_filtered_jumps = 2 \<rparr>"

definition scenario_summary :: summary where
  "scenario_summary =
     \<lparr> sm_systems_table = Some ''systems'', sm_jumps_table = Some ''jumps'',
       sm_systems_count = 2, sm_filtered_systems = 1, sm_jumps_count = 1,
       sm_filtered_jumps = 2, sm_out = ''out'' \<rparr>"

definition scenario_run :: "(py_error + summary) \<times> fs" where
  "scenario_run = main example_rt scenario_args scenario_db empty_fs"

definition scenario_columns :: sys_columns where
  "scenario_columns =
     \<lparr> id_col = ''id'', name_col = Some ''name'', x_col = Some ''x'', y_col = Some ''y'',
       z_col = Some ''z'' \<rparr>"

section \<open>Evaluation\<close>

lemma bind_err_Inl [simp]: "bind_err (Inl e) f = Inl e"
  by (simp add: bind_err_def)

lemma bind_err_Inr [simp]: "bind_err (Inr v) f = f v"
  by (simp add: bind_err_def)

lemma bind_err_eq_Inr: "bind_err m f = Inr y \<longleftrightarrow> (\<exists>v. m = Inr v \<and> f v = Inr y)"
  by (cases m) simp_all

lemmas string_eval = lower_def lower_char_def ascii_lower_def is_ascii_def equal_ignore_case_def
  is_digit_def NEWLINE_def char_of_def bit_Suc_0_iff

lemmas filter_eval = is_filtered_system_def re_match_def PAT_V_def PAT_AD_def at_dollar_def

lemmas load_eval = load_def table_or_infer_def truthy_def infer_table_cur_def infer_table_def
  get_cols_def resolve_sys_columns_def resolve_id_col_def py_or_def select_list_def opt_col_def
  load_row_def name_value_def row_keys_def coord_def load_jumps_def resolve_source_col_def
  resolve_target_col_def

lemmas fixture_eval = db_of_tables_def select_from_def st_of_row_def example_rt_def
  no_overrides_def zero_def METERS_PER_LY_def

lemmas round_eval = round_double_def round_single_def round_binary_def round_mag_def
  floor_log2_def round_half_even_def pow2_def bitlen.simps Let_def

section \<open>The name-exclusion filter, proved\<close>

text \<open>The eight names of the specification are sorted as it says.\<close>

lemma is_filtered_system_examples:
  "is_filtered_system ''V-001'' \<and> is_filtered_system ''v-999'' \<and>
   is_filtered_system ''AD001'' \<and> is_filtered_system ''ad123'' \<and>
   \<not> is_filtered_system ''V-1'' \<and> \<not> is_filtered_system ''V-0001'' \<and>
   \<not> is_filtered_system ''ADX001'' \<and> \<not> is_filtered_system ''Alpha-001''"
  by (simp add: filter_eval string_eval)

text \<open>
  Claim C2. The claim: \<open>is_filtered_system\<close> returns true if and only if the entire name
  is \<open>V\<close>, a hyphen and exactly three digits, or \<open>AD\<close> and exactly three digits, in
  either case of the letters. The code: the six-character name \<open>V-001\<close> followed by a
  newline is not of that form, and \<open>is_filtered_system\<close> returns true on it, because
  \<open>$\<close> also matches before a final newline.
\<close>

theorem is_filtered_system_trailing_newline:
  "is_filtered_system (''V-001'' @ [NEWLINE]) = True \<and> length (''V-001'' @ [NEWLINE]) = 6"
  by (simp add: filter_eval string_eval)

section \<open>Table inference, proved\<close>

lemma first_table_None_iff:
  "first_table tables kws = None \<longleftrightarrow>
     (\<forall>t\<in>set tables. \<not> list_ex (\<lambda>k. contains_str k (lower t)) kws)"
  by (induction tables) auto

text \<open>Whatever the keywords, a list of tables of which none matches resolves to its
  first table: the last line of \<open>infer_table\<close> does not look at the keywords.\<close>

lemma infer_table_fallback:
  "tables \<noteq> [] \<Longrightarrow> \<forall>t\<in>set tables. \<not> list_ex (\<lambda>k. contains_str k (lower t)) kws \<Longrightarrow>
   infer_table tables kws = Some (hd tables)"
  by (cases tables) (auto simp: infer_table_def first_table_None_iff [THEN iffD2] split: option.splits)

lemma lone_table_load:
  "load example_rt (no_overrides ''out'') lone_table_db =
   Inr \<lparr> ld_systems_table = Some ''systems'', ld_jumps_table = Some ''systems'',
         ld_systems = [(1, ''Sol'', Finite False 0, Finite False 0, Finite False 0),
                       (3, ''Alpha'', Finite False 9460730472580800, Finite False 0, Finite False 0)],
         ld_filtered_count = 0, ld_jumps = [(1, 1), (1, 1)] \<rparr>"
  by (simp add: lone_table_db_def load_eval fixture_eval string_eval filter_eval)

text \<open>
  Claim C5. The claim: when no table name contains \<open>jump\<close>, \<open>gate\<close> or \<open>link\<close> and no
  jumps table is given, the jumps table resolves to absent and the run has zero jumps.
  The code: for the database whose only table is \<open>systems\<close>, the jumps table resolves
  to \<open>systems\<close>, and the run loads two jumps out of its \<open>base_id\<close> column.
\<close>

theorem jumps_table_falls_back_to_first_table:
  "db_tables lone_table_db = Inr [''systems''] \<and>
   infer_table [''systems''] [''jump'', ''gate'', ''link''] = Some ''systems'' \<and>
   map_sum id ld_jumps_table (load example_rt (no_overrides ''out'') lone_table_db)
     = Inr (Some ''systems'') \<and>
   map_sum id ld_jumps (load example_rt (no_overrides ''out'') lone_table_db)
     = Inr [(1, 1), (1, 1)]"
  by (simp add: lone_table_load) (simp add: lone_table_db_def db_of_tables_def infer_table_def string_eval)

section \<open>The coordinate transform, proved\<close>

lemma float_truediv_ly: "float_truediv x METERS_PER_LY = Inr (div_ly x)"
  by (cases x) (simp_all add: METERS_PER_LY_def div_ly_def LY_def)

lemma transform_xyz_floats:
  "transform_xyz rt (PyFloat x) (PyFloat y) (PyFloat z) = Inr (div_ly x, div_ly z, float_neg (div_ly y))"
  by (simp add: transform_xyz_def float_truediv_ly)

lemma round_double_neg: "float_neg (round_double s m) = round_double (\<not> s) m"
  by (simp add: round_double_def round_binary_def Let_def)

text \<open>Rounding leaves zero, the small integers of the examples and the multiples of the
  light-year used there as they are: all of them are doubles.\<close>

lemma round_double_zero: "round_double s 0 = Finite s 0"
  by (simp add: round_double_def round_binary_def round_mag_def pow2_def)

lemma round_single_zero: "round_single s 0 = Finite s 0"
  by (simp add: round_single_def round_binary_def round_mag_def pow2_def)

lemma round_double_small:
  "round_double s 1 = Finite s 1" "round_double s 2 = Finite s 2" "round_double s 3 = Finite s 3"
  "round_double s 5 = Finite s 5" "round_double s 10 = Finite s 10"
  by (simp_all add: round_eval)

lemma round_single_one: "round_single s 1 = Finite s 1"
  by (simp add: round_eval)

lemma multiples_of_ly_are_doubles:
  "round_double s LY = Finite s LY" "round_double s (2 * LY) = Finite s (2 * LY)"
  "round_double s (3 * LY) = Finite s (3 * LY)" "round_double s (5 * LY) = Finite s (5 * LY)"
  "round_double s (10 * LY) = Finite s (10 * LY)"
  by (simp_all add: LY_def round_eval)

lemma py_float_int_zero: "py_float rt (PyInt 0) = Inr (Finite False 0)"
  by (simp add: round_double_zero)

text \<open>The rounding on values that are no doubles: a tie goes to the even significand,
  and one tenth becomes the double and the single that Python prints as \<open>0.1\<close>.\<close>

lemma quotient_of_numeral_div:
  "quotient_of (numeral a / numeral b) = Rat.normalize (numeral a, numeral b)"
  "quotient_of (1 / numeral b) = Rat.normalize (1, numeral b)"
proof -
  have "(numeral a / numeral b :: rat) = Fract (numeral a) (numeral b)"
    unfolding Fract_of_int_quotient by simp
  then show "quotient_of (numeral a / numeral b) = Rat.normalize (numeral a, numeral b)"
    by (simp only: quotient_of_Fract)
  have "(1 / numeral b :: rat) = Fract 1 (numeral b)"
    unfolding Fract_of_int_quotient by simp
  then show "quotient_of (1 / numeral b) = Rat.normalize (1, numeral b)"
    by (simp only: quotient_of_Fract)
qed

lemma floor_numeral_div:
  "\<lfloor>numeral a / numeral b :: rat\<rfloor> = numeral a div numeral b"
  using floor_divide_of_int_eq [of "numeral a" "numeral b", where ?'a = rat] by simp

lemma round_double_ties:
  "round_double False 9007199254740993 = Finite False 9007199254740992"
  "round_double False 9007199254740995 = Finite False 9007199254740996"
  by (simp_all add: round_eval floor_numeral_div)

lemma round_double_tenth:
  "round_double False (1 / 10) = Finite False (3602879701896397 / 36028797018963968)"
  by (simp add: round_eval quotient_of_numeral_div Rat.normalize_def floor_numeral_div)

lemma round_single_tenth:
  "round_single False (1 / 10) = Finite False (13421773 / 134217728)"
  by (simp add: round_eval quotient_of_numeral_div Rat.normalize_def floor_numeral_div)

text \<open>
  Claim C1. For every triple of finite inputs, \<open>transform_xyz\<close> returns
  \<open>(xm / L, zm / L, - ym / L)\<close>, where \<open>/\<close> is the division of floats: each component is
  the exact quotient by \<open>L = 9460730472580800\<close> rounded to the nearest double, the
  third with the sign turned. An input is finite when \<open>float()\<close> of it is a finite
  float, given here by its sign and magnitude.
\<close>

theorem transform_xyz_quotients:
  assumes "py_float rt xm = Inr (Finite sx mx)"
    and "py_float rt ym = Inr (Finite sy my)"
    and "py_float rt zm = Inr (Finite sz mz)"
  shows "transform_xyz rt xm ym zm =
           Inr (round_double sx (mx / LY), round_double sz (mz / LY), round_double (\<not> sy) (my / LY))"
  using assms
  by (simp add: transform_xyz_def float_truediv_ly div_ly_def round_double_neg)

text \<open>The four triples of the claim: \<open>(0,0,0)\<close> gives \<open>(0.0, 0.0, -0.0)\<close>, which \<open>==\<close>
  takes as equal to \<open>(0,0,0)\<close>; \<open>(L,0,0)\<close> gives \<open>(1,0,-0.0)\<close>; \<open>(L,2L,3L)\<close> gives
  \<open>(1,3,-2)\<close>; \<open>(-5L,10L,-3L)\<close> gives \<open>(-5,-3,-10)\<close>.\<close>

theorem transform_xyz_quotients_witness:
  "py_float example_rt (PyInt 0) = Inr (Finite False 0) \<and>
   py_float example_rt (PyFloat (Finite True (5 * LY))) = Inr (Finite True (5 * LY)) \<and>
   transform_xyz example_rt (PyInt 0) (PyInt 0) (PyInt 0)
     = Inr (Finite False 0, Finite False 0, Finite True 0) \<and>
   triple_eq (Finite False 0, Finite False 0, Finite True 0)
             (Finite False 0, Finite False 0, Finite False 0) \<and>
   transform_xyz example_rt (PyFloat METERS_PER_LY) (PyInt 0) (PyInt 0)
     = Inr (Finite False 1, Finite False 0, Finite True 0) \<and>
   transform_xyz example_rt (PyFloat (Finite False LY)) (PyFloat (Finite False (2 * LY)))
       (PyFloat (Finite False (3 * LY)))
     = Inr (Finite False 1, Finite False 3, Finite True 2) \<and>
   transform_xyz example_rt (PyFloat (Finite True (5 * LY))) (PyFloat (Finite False (10 * LY)))
       (PyFloat (Finite True (3 * LY)))
     = Inr (Finite True 5, Finite True 3, Finite True 10)"
proof -
  have z: "py_float example_rt (PyInt 0) = Inr (Finite False 0)"
    by (rule py_float_int_zero)
  have f: "py_float example_rt (PyFloat (Finite s m)) = Inr (Finite s m)" for s m
    by simp
  have ly: "PyFloat METERS_PER_LY = PyFloat (Finite False LY)"
    by (simp add: METERS_PER_LY_def LY_def)
  have q: "LY / LY = 1" "2 * LY / LY = 2" "3 * LY / LY = 3" "5 * LY / LY = 5" "10 * LY / LY = 10"
          "0 / LY = 0"
    by (simp_all add: LY_def)
  have nz: "LY \<noteq> 0"
    by (simp add: LY_def)
  show ?thesis
    using transform_xyz_quotients [OF z z z]
      transform_xyz_quotients [OF f z z, of False LY]
      transform_xyz_quotients [OF f f f, of False LY False "2 * LY" False "3 * LY"]
      transform_xyz_quotients [OF f f f, of True "5 * LY" False "10 * LY" True "3 * LY"]
    by (simp add: z ly q nz round_double_zero round_double_small triple_eq_def)
qed

section \<open>The arrays and the jump filter, proved\<close>

lemma append_I_Inr: "append_I arr v = Inr arr' \<longleftrightarrow> in_u32 v \<and> arr' = arr @ [word_of_int v]"
  by (auto simp: append_I_def in_u32_def)

lemma append_I_Inl: "append_I arr v = Inl e \<longleftrightarrow> \<not> in_u32 v \<and> e = OverflowError"
  by (auto simp: append_I_def in_u32_def)

lemma uint_u32: "in_u32 v \<Longrightarrow> uint (word_of_int v :: 32 word) = v"
  by (simp add: in_u32_def uint_word_of_int take_bit_int_eq_self)

lemma build_arrays_Inr:
  "build_arrays rt systems ar = Inr ar' \<Longrightarrow>
     ar_ids ar' = ar_ids ar @ map (\<lambda>s. word_of_int (fst s)) systems \<and>
     ar_positions ar' = ar_positions ar @ concat (map position3 systems) \<and>
     list_all (\<lambda>s. in_u32 (fst s)) systems"
proof (induction systems arbitrary: ar)
  case Nil
  then show ?case by simp
next
  case (Cons s systems)
  obtain sid nm x y z where s: "s = (sid, nm, x, y, z)" by (cases s) auto
  from Cons.prems obtain ids where
    ids: "append_I (ar_ids ar) sid = Inr ids" and
    rest: "build_arrays rt systems
             \<lparr> ar_ids = ids,
               ar_positions = extend_f (ar_positions ar) [div_ly x, div_ly z, float_neg (div_ly y)],
               ar_names = dict_set (ar_names ar) (str_of_int sid) nm \<rparr> = Inr ar'"
    by (auto simp: s bind_err_eq_Inr transform_xyz_floats Let_def)
  from Cons.IH [OF rest] ids show ?case
    by (simp add: s append_I_Inr position3_def extend_f_def)
qed

lemma extend_I_pair:
  "in_u32 a \<Longrightarrow> in_u32 b \<Longrightarrow> extend_I flat [a, b] = Inr (flat @ [word_of_int a, word_of_int b])"
  by (simp add: append_I_def in_u32_def)

lemma filter_jumps_Inr:
  "\<forall>v\<in>valid. in_u32 v \<Longrightarrow>
   filter_jumps valid jumps flat n =
     Inr (flat @ flatten (filter (surviving_jump valid) jumps),
          n + length (filter (\<lambda>j. \<not> surviving_jump valid j) jumps))"
proof (induction jumps arbitrary: flat n)
  case Nil
  then show ?case by (simp add: flatten_def)
next
  case (Cons j jumps)
  obtain a b where j: "j = (a, b)" by (cases j)
  show ?case
  proof (cases "a \<in> valid \<and> b \<in> valid")
    case True
    then have ab: "in_u32 a" "in_u32 b" using Cons.prems by auto
    have "filter_jumps valid (j # jumps) flat n =
            filter_jumps valid jumps (flat @ [word_of_int a, word_of_int b]) n"
      using True by (simp add: j extend_I_pair [OF ab] del: extend_I.simps)
    then show ?thesis using True
      by (simp add: Cons.IH [OF Cons.prems] j surviving_jump_def flatten_def)
  next
    case False
    have "filter_jumps valid (j # jumps) flat n = filter_jumps valid jumps flat (n + 1)"
      using False by (auto simp: j)
    then show ?thesis using False
      by (auto simp: Cons.IH [OF Cons.prems] j surviving_jump_def)
  qed
qed

text \<open>What a successful \<open>build\<close> returns.\<close>

lemma build_Inr:
  assumes "build rt systems jumps = Inr bt"
  shows "bt_ids bt = map (\<lambda>s. word_of_int (fst s)) systems"
    and "bt_positions bt = concat (map position3 systems)"
    and "list_all (\<lambda>s. in_u32 (fst s)) systems"
    and "bt_flat_jumps bt = flatten (filter (surviving_jump (set (map fst systems))) jumps)"
    and "bt_filtered_jumps bt =
           length (filter (\<lambda>j. \<not> surviving_jump (set (map fst systems)) j) jumps)"
proof -
  from assms obtain ar fj where
    ar: "build_arrays rt systems \<lparr> ar_ids = [], ar_positions = [], ar_names = [] \<rparr> = Inr ar" and
    fj: "filter_jumps (set (map fst systems)) jumps [] 0 = Inr fj" and
    bt: "bt = \<lparr> bt_ids = ar_ids ar, bt_positions = ar_positions ar, bt_names = ar_names ar,
               bt_flat_jumps = fst fj, bt_filtered_jumps = snd fj \<rparr>"
    by (auto simp: build_def Let_def bind_err_eq_Inr split: prod.splits)
  note A = build_arrays_Inr [OF ar]
  from A show "list_all (\<lambda>s. in_u32 (fst s)) systems" by simp
  then have valid: "\<forall>v\<in>set (map fst systems). in_u32 v"
    by (auto simp: list_all_iff)
  from A show "bt_ids bt = map (\<lambda>s. word_of_int (fst s)) systems" by (simp add: bt)
  from A show "bt_positions bt = concat (map position3 systems)" by (simp add: bt)
  from fj filter_jumps_Inr [OF valid, of jumps "[]" 0]
  show "bt_flat_jumps bt = flatten (filter (surviving_jump (set (map fst systems))) jumps)"
    and "bt_filtered_jumps bt =
           length (filter (\<lambda>j. \<not> surviving_jump (set (map fst systems)) j) jumps)"
    by (auto simp: bt)
qed

lemma pairs_of_flatten:
  "list_all (\<lambda>j. in_u32 (fst j) \<and> in_u32 (snd j)) js \<Longrightarrow> pairs_of (flatten js) = js"
  by (induction js) (auto simp: flatten_def uint_u32)

lemma valid_ids_image:
  "list_all (\<lambda>s. in_u32 (fst s)) systems \<Longrightarrow>
   uint ` set (map (\<lambda>s. word_of_int (fst s) :: 32 word) systems) = set (map fst systems)"
  by (induction systems) (auto simp: uint_u32)

lemma surviving_in_u32:
  "list_all (\<lambda>s. in_u32 (fst s)) systems \<Longrightarrow>
   list_all (\<lambda>j. in_u32 (fst j) \<and> in_u32 (snd j))
     (filter (surviving_jump (set (map fst systems))) jumps)"
  by (auto simp: list_all_iff surviving_jump_def)

lemma length_filter_not:
  "length (filter (\<lambda>j. \<not> P j) js) + length (filter P js) = length js"
  by (induction js) auto

lemma take_drop_concat3:
  "\<forall>x\<in>set xs. length (g x) = 3 \<Longrightarrow> i < length xs \<Longrightarrow>
   take 3 (drop (3 * i) (concat (map g xs))) = g (xs ! i)"
proof (induction xs arbitrary: i)
  case Nil
  then show ?case by simp
next
  case (Cons x xs)
  show ?case
  proof (cases i)
    case 0
    then show ?thesis using Cons.prems by simp
  next
    case (Suc k)
    then show ?thesis using Cons.prems Cons.IH [of k] by simp
  qed
qed

lemma length_position3 [simp]: "length (position3 s) = 3"
  by (cases s) (simp add: position3_def)

section \<open>Runs\<close>

text \<open>A run that succeeds has loaded, built and written; a run that fails has only made
  the output directory.\<close>

lemma main_success_ld:
  assumes "load rt a cur = Inr ld" and "fst (main rt a cur f) = Inr sm"
  obtains bt where "build rt (ld_systems ld) (ld_jumps ld) = Inr bt"
    and "sm = summarise (arg_out a) ld bt"
    and "snd (main rt a cur f) = write_assets (mkdir f (arg_out a)) (arg_out a) ld bt"
  using assms by (auto simp: main_def Let_def split: sum.splits)


lemma written_files:
  "fs_files (write_assets f0 d ld bt) (d, ''systems_positions.bin'') = Some (FloatArrayBytes (bt_positions bt))"
  "fs_files (write_assets f0 d ld bt) (d, ''systems_ids.bin'') = Some (UIntArrayBytes (bt_ids bt))"
  "fs_files (write_assets f0 d ld bt) (d, ''systems_names.json'') = Some (NamesJson (bt_names bt))"
  "fs_files (write_assets f0 d ld bt) (d, ''jumps.bin'') = Some (UIntArrayBytes (bt_flat_jumps bt))"
  "fs_files (write_assets f0 d ld bt) (d, ''manifest.json'') =
     Some (ManifestJson \<lparr> counts_systems = length (ld_systems ld), counts_jumps = length (ld_jumps ld) \<rparr>)"
  by (simp_all add: write_assets_def write_file_def Let_def)

lemma load_no_systems_table:
  assumes "table_or_infer (arg_systems_table a) cur [''system''] = Inr st"
    and "table_or_infer (arg_jumps_table a) cur [''jump'', ''gate'', ''link''] = Inr jt"
    and "\<not> truthy st"
  shows "load rt a cur = Inl (SystemExit ''Could not find systems table; use --systems-table to specify.'')"
  using assms by (simp add: load_def)

lemma load_systems_kept:
  "load_systems rt sc rows systems n = Inr (systems', n') \<Longrightarrow>
   systems' = systems @ kept rt sc rows \<and> n' + length (kept rt sc rows) = n + length rows"
proof (induction rows arbitrary: systems n)
  case Nil
  then show ?case by (simp add: kept_def map_filter_simps)
next
  case (Cons r rows)
  show ?case
  proof (cases "load_row rt sc r")
    case (Inl e)
    with Cons.prems show ?thesis by simp
  next
    case (Inr res)
    show ?thesis
    proof (cases res)
      case None
      with Inr Cons.prems have "load_systems rt sc rows systems (n + 1) = Inr (systems', n')"
        by simp
      from Cons.IH [OF this] Inr None show ?thesis
        by (simp add: kept_def map_filter_simps)
    next
      case (Some sys)
      with Inr Cons.prems have "load_systems rt sc rows (systems @ [sys]) n = Inr (systems', n')"
        by simp
      from Cons.IH [OF this] Inr Some show ?thesis
        by (simp add: kept_def map_filter_simps)
    qed
  qed
qed

lemma load_kept:
  assumes "load rt a cur = Inr ld"
  shows "\<exists>sc rows. db_select cur (select_list sc) (the (ld_systems_table ld)) = Inr rows \<and>
           ld_systems ld = kept rt sc rows \<and>
           ld_filtered_count ld + length (ld_systems ld) = length rows"
proof -
  from assms obtain st jt sys_cols sc rows systems fc jumps where
    sel: "db_select cur (select_list sc) (the st) = Inr rows" and
    sys: "load_systems rt sc rows [] 0 = Inr (systems, fc)" and
    ld: "ld = \<lparr> ld_systems_table = st, ld_jumps_table = jt, ld_systems = systems,
               ld_filtered_count = fc, ld_jumps = jumps \<rparr>"
    by (auto simp: load_def bind_err_eq_Inr split: if_splits prod.splits)
  from load_systems_kept [OF sys] sel show ?thesis
    by (auto simp: ld)
qed

subsection \<open>The scenario, evaluated\<close>

lemmas build_eval = build_def transform_xyz_floats div_ly_def LY_def round_double_zero
  round_double_small round_single_zero round_single_one append_I_def extend_f_def
  str_of_int_def digits.simps char_of_def bit_Suc_0_iff

lemma scenario_load: "load example_rt scenario_args scenario_db = Inr scenario_loaded"
  by (simp add: scenario_args_def scenario_loaded_def scenario_db_def load_eval fixture_eval
        string_eval filter_eval)

lemma scenario_build:
  "build example_rt (ld_systems scenario_loaded) (ld_jumps scenario_loaded) = Inr scenario_built"
  by (simp add: scenario_loaded_def scenario_built_def build_eval)

lemma arg_out_scenario: "arg_out scenario_args = ''out''"
  by (simp add: scenario_args_def no_overrides_def)

lemma scenario_main:
  "scenario_run = (Inr (summarise ''out'' scenario_loaded scenario_built),
                   write_assets (mkdir empty_fs ''out'') ''out'' scenario_loaded scenario_built)"
  by (simp add: scenario_run_def main_def scenario_load scenario_build arg_out_scenario Let_def)

lemma scenario_result: "fst scenario_run = Inr scenario_summary"
  by (simp add: scenario_main summarise_def scenario_summary_def scenario_loaded_def
        scenario_built_def)

lemma scenario_files:
  "fs_files (snd scenario_run) (''out'', ''systems_positions.bin'') =
     Some (FloatArrayBytes [Finite False 0, Finite False 0, Finite True 0,
                            Finite False 1, Finite False 0, Finite True 0])"
  "fs_files (snd scenario_run) (''out'', ''systems_ids.bin'') = Some (UIntArrayBytes [1, 3])"
  "fs_files (snd scenario_run) (''out'', ''systems_names.json'') =
     Some (NamesJson [(''1'', ''Sol''), (''3'', ''Alpha'')])"
  "fs_files (snd scenario_run) (''out'', ''jumps.bin'') = Some (UIntArrayBytes [1, 3])"
  "fs_files (snd scenario_run) (''out'', ''manifest.json'') =
     Some (ManifestJson \<lparr> counts_systems = 2, counts_jumps = 3 \<rparr>)"
  by (simp_all add: scenario_main written_files scenario_loaded_def scenario_built_def)

section \<open>The claims about a run\<close>

text \<open>
  Claim C3. In a run that succeeds, the pairs of the written jump array are exactly the
  loaded jumps whose two ends are both in the written id array, in the order in which
  they were loaded, each laid out as source then target; the others are counted in the
  summary and not written.
\<close>

theorem surviving_jumps_written:
  assumes "load rt a cur = Inr ld" and "fst (main rt a cur f) = Inr sm"
  shows "\<exists>ids flat_jumps.
     fs_files (snd (main rt a cur f)) (arg_out a, ''systems_ids.bin'') = Some (UIntArrayBytes ids) \<and>
     fs_files (snd (main rt a cur f)) (arg_out a, ''jumps.bin'') = Some (UIntArrayBytes flat_jumps) \<and>
     pairs_of flat_jumps = filter (surviving_jump (uint ` set ids)) (ld_jumps ld) \<and>
     flatten (pairs_of flat_jumps) = flat_jumps \<and>
     (\<forall>x y. (x, y) \<in> set (pairs_of flat_jumps) \<longleftrightarrow>
        (x, y) \<in> set (ld_jumps ld) \<and> x \<in> uint ` set ids \<and> y \<in> uint ` set ids) \<and>
     sm_jumps_count sm = length (pairs_of flat_jumps) \<and>
     sm_filtered_jumps sm + sm_jumps_count sm = length (ld_jumps ld)"
proof -
  from assms obtain bt where
    bt: "build rt (ld_systems ld) (ld_jumps ld) = Inr bt" and
    sm: "sm = summarise (arg_out a) ld bt" and
    fs: "snd (main rt a cur f) = write_assets (mkdir f (arg_out a)) (arg_out a) ld bt"
    by (rule main_success_ld)
  let ?valid = "set (map fst (ld_systems ld))"
  let ?kept = "filter (surviving_jump ?valid) (ld_jumps ld)"
  note B = build_Inr [OF bt]
  have img: "uint ` set (bt_ids bt) = ?valid"
    using valid_ids_image [OF B(3)] by (simp add: B(1))
  have pairs: "pairs_of (bt_flat_jumps bt) = ?kept"
    using pairs_of_flatten [OF surviving_in_u32 [OF B(3)]] by (simp add: B(4))
  have len: "length (bt_flat_jumps bt) div 2 = length ?kept"
    by (simp add: B(4) flatten_def length_concat comp_def split_def sum_list_triv)
  show ?thesis
  proof (intro exI conjI)
    show "fs_files (snd (main rt a cur f)) (arg_out a, ''systems_ids.bin'') = Some (UIntArrayBytes (bt_ids bt))"
      by (simp add: fs written_files)
    show "fs_files (snd (main rt a cur f)) (arg_out a, ''jumps.bin'') = Some (UIntArrayBytes (bt_flat_jumps bt))"
      by (simp add: fs written_files)
    show "pairs_of (bt_flat_jumps bt) = filter (surviving_jump (uint ` set (bt_ids bt))) (ld_jumps ld)"
      by (simp add: pairs img)
    show "flatten (pairs_of (bt_flat_jumps bt)) = bt_flat_jumps bt"
      unfolding pairs by (rule B(4) [symmetric])
    show "\<forall>x y. (x, y) \<in> set (pairs_of (bt_flat_jumps bt)) \<longleftrightarrow>
        (x, y) \<in> set (ld_jumps ld) \<and> x \<in> uint ` set (bt_ids bt) \<and> y \<in> uint ` set (bt_ids bt)"
      by (auto simp: pairs img surviving_jump_def)
    show "sm_jumps_count sm = length (pairs_of (bt_flat_jumps bt))"
      by (simp add: sm summarise_def len pairs)
    show "sm_filtered_jumps sm + sm_jumps_count sm = length (ld_jumps ld)"
      using length_filter_not [of "surviving_jump ?valid" "ld_jumps ld"]
      by (simp add: sm summarise_def len B(5))
  qed
qed

theorem surviving_jumps_written_witness:
  "load example_rt scenario_args scenario_db = Inr scenario_loaded \<and>
   fst scenario_run = Inr scenario_summary \<and>
   ld_jumps scenario_loaded = [(1, 2), (1, 3), (3, 99)] \<and>
   fs_files (snd scenario_run) (''out'', ''systems_ids.bin'') = Some (UIntArrayBytes [1, 3]) \<and>
   fs_files (snd scenario_run) (''out'', ''jumps.bin'') = Some (UIntArrayBytes [1, 3]) \<and>
   pairs_of [1, 3] = filter (surviving_jump (uint ` set [1, 3 :: 32 word])) [(1, 2), (1, 3), (3, 99)] \<and>
   pairs_of [1, 3 :: 32 word] = [(1, 3)] \<and>
   sm_jumps_count scenario_summary = 1 \<and> sm_filtered_jumps scenario_summary = 2"
  using surviving_jumps_written [OF scenario_load scenario_result [unfolded scenario_run_def]]
  by (auto simp: scenario_load scenario_result scenario_files [unfolded scenario_run_def]
        arg_out_scenario scenario_files scenario_summary_def scenario_loaded_def)

text \<open>
  Claim C4. In a run that succeeds, the manifest's counts are the number of the systems
  written (the length of the id array) under \<open>systems\<close>, and under \<open>jumps\<close> the number of
  all the jumps loaded, before the jump filter.
\<close>

theorem manifest_counts:
  assumes "load rt a cur = Inr ld" and "fst (main rt a cur f) = Inr sm"
  shows "\<exists>ids.
     fs_files (snd (main rt a cur f)) (arg_out a, ''systems_ids.bin'') = Some (UIntArrayBytes ids) \<and>
     fs_files (snd (main rt a cur f)) (arg_out a, ''manifest.json'') =
       Some (ManifestJson \<lparr> counts_systems = length ids, counts_jumps = length (ld_jumps ld) \<rparr>) \<and>
     length ids = length (ld_systems ld)"
proof -
  from assms obtain bt where
    bt: "build rt (ld_systems ld) (ld_jumps ld) = Inr bt" and
    fs: "snd (main rt a cur f) = write_assets (mkdir f (arg_out a)) (arg_out a) ld bt"
    by (rule main_success_ld)
  note B = build_Inr [OF bt]
  show ?thesis
    by (rule exI [of _ "bt_ids bt"]) (simp add: fs written_files B(1))
qed

text \<open>The scenario: two systems written, three jumps loaded, one jump written.\<close>

theorem manifest_counts_witness:
  "load example_rt scenario_args scenario_db = Inr scenario_loaded \<and>
   fst scenario_run = Inr scenario_summary \<and>
   length (ld_jumps scenario_loaded) = 3 \<and>
   fs_files (snd scenario_run) (''out'', ''systems_ids.bin'') = Some (UIntArrayBytes [1, 3]) \<and>
   fs_files (snd scenario_run) (''out'', ''manifest.json'') =
     Some (ManifestJson \<lparr> counts_systems = 2, counts_jumps = 3 \<rparr>) \<and>
   fs_files (snd scenario_run) (''out'', ''jumps.bin'') = Some (UIntArrayBytes [1, 3]) \<and>
   length (pairs_of [1, 3 :: 32 word]) = 1"
  using manifest_counts [OF scenario_load scenario_result [unfolded scenario_run_def]]
  by (auto simp: scenario_load scenario_result scenario_files scenario_loaded_def)








text \<open>The two aborts of the claim are errors of the run: no systems table, by
  \<open>load_no_systems_table\<close>, and a kept row whose id is no integer.\<close>

lemma load_row_bad_id:
  assumes "row_get r (id_col sc) = Inr sid"
    and "name_value rt sc r sid = Inr (PyStr nm)" and "\<not> is_filtered_system nm"
    and "coord rt r (x_col sc) = Inr xv" and "coord rt r (y_col sc) = Inr yv"
    and "coord rt r (z_col sc) = Inr zv"
    and "py_int rt sid = Inl e"
  shows "load_row rt sc r = Inl e"
  using assms by (simp add: load_row_def)

lemma load_systems_error:
  "load_row rt sc r = Inl e \<Longrightarrow> r \<in> set rows \<Longrightarrow> \<exists>e'. load_systems rt sc rows systems n = Inl e'"
proof (induction rows arbitrary: systems n)
  case Nil
  then show ?case by simp
next
  case (Cons r' rows)
  show ?case
  proof (cases "load_row rt sc r'")
    case (Inl e')
    then show ?thesis by simp
  next
    case (Inr res)
    with Cons.prems have "r \<in> set rows" by auto
    from Cons.IH [OF Cons.prems(1) this] Inr show ?thesis
      by (cases res) simp_all
  qed
qed

text \<open>The loop that builds the arrays passes through the arrays of every prefix of the
  systems, and after each turn the position array is three times as long as the id
  array, also in a run that fails on a later system.\<close>

lemma build_arrays_append:
  "build_arrays rt (pre @ post) ar = bind_err (build_arrays rt pre ar) (build_arrays rt post)"
proof (induction pre arbitrary: ar)
  case Nil
  then show ?case by simp
next
  case (Cons s pre)
  obtain sid nm x y z where s: "s = (sid, nm, x, y, z)" by (cases s) auto
  show ?case
    by (cases "append_I (ar_ids ar) sid") (simp_all add: s transform_xyz_floats Cons.IH Let_def)
qed

lemma build_arrays_invariant:
  assumes "build_arrays rt pre \<lparr> ar_ids = [], ar_positions = [], ar_names = [] \<rparr> = Inr ar"
  shows "length (ar_positions ar) = 3 * length (ar_ids ar)"
  using build_arrays_Inr [OF assms]
  by (simp add: length_concat comp_def sum_list_triv)

text \<open>
  Claim C7. In a run that succeeds, the position array is three times as long as the id
  array; the \<open>i\<close>-th id is the id of the \<open>i\<close>-th loaded system and the items
  \<open>3i, 3i+1, 3i+2\<close> of the position array are the three transformed coordinates of that
  same system; and the loaded systems are the rows that were kept, in the order of the
  rows.
\<close>

theorem ids_positions_parallel:
  assumes "load rt a cur = Inr ld" and "fst (main rt a cur f) = Inr sm"
  shows "(\<exists>ids positions.
     fs_files (snd (main rt a cur f)) (arg_out a, ''systems_ids.bin'') = Some (UIntArrayBytes ids) \<and>
     fs_files (snd (main rt a cur f)) (arg_out a, ''systems_positions.bin'')
       = Some (FloatArrayBytes positions) \<and>
     length positions = 3 * length ids \<and>
     length ids = length (ld_systems ld) \<and>
     (\<forall>i<length ids.
        uint (ids ! i) = fst (ld_systems ld ! i) \<and>
        take 3 (drop (3 * i) positions) = position3 (ld_systems ld ! i))) \<and>
     (\<exists>sc rows. db_select cur (select_list sc) (the (ld_systems_table ld)) = Inr rows \<and>
        ld_systems ld = kept rt sc rows)"
proof -
  from assms obtain bt where
    bt: "build rt (ld_systems ld) (ld_jumps ld) = Inr bt" and
    fs: "snd (main rt a cur f) = write_assets (mkdir f (arg_out a)) (arg_out a) ld bt"
    by (rule main_success_ld)
  note B = build_Inr [OF bt]
  have len: "length (bt_positions bt) = 3 * length (bt_ids bt)"
    by (simp add: B(1,2) length_concat comp_def sum_list_triv)
  have each: "uint (bt_ids bt ! i) = fst (ld_systems ld ! i) \<and>
      take 3 (drop (3 * i) (bt_positions bt)) = position3 (ld_systems ld ! i)"
    if "i < length (bt_ids bt)" for i
  proof -
    from that have i: "i < length (ld_systems ld)" by (simp add: B(1))
    then have "in_u32 (fst (ld_systems ld ! i))"
      using B(3) by (simp add: list_all_length)
    then show ?thesis using i
      by (simp add: B(1,2) uint_u32 take_drop_concat3)
  qed
  have order: "\<exists>sc rows. db_select cur (select_list sc) (the (ld_systems_table ld)) = Inr rows \<and>
        ld_systems ld = kept rt sc rows"
    using load_kept [OF assms(1)] by blast
  have parallel: "\<exists>ids positions.
     fs_files (snd (main rt a cur f)) (arg_out a, ''systems_ids.bin'') = Some (UIntArrayBytes ids) \<and>
     fs_files (snd (main rt a cur f)) (arg_out a, ''systems_positions.bin'')
       = Some (FloatArrayBytes positions) \<and>
     length positions = 3 * length ids \<and>
     length ids = length (ld_systems ld) \<and>
     (\<forall>i<length ids.
        uint (ids ! i) = fst (ld_systems ld ! i) \<and>
        take 3 (drop (3 * i) positions) = position3 (ld_systems ld ! i))"
  proof (intro exI conjI)
    show "fs_files (snd (main rt a cur f)) (arg_out a, ''systems_ids.bin'') = Some (UIntArrayBytes (bt_ids bt))"
      by (simp add: fs written_files)
    show "fs_files (snd (main rt a cur f)) (arg_out a, ''systems_positions.bin'')
            = Some (FloatArrayBytes (bt_positions bt))"
      by (simp add: fs written_files)
    show "length (bt_positions bt) = 3 * length (bt_ids bt)" by (rule len)
    show "length (bt_ids bt) = length (ld_systems ld)" by (simp add: B(1))
    show "\<forall>i<length (bt_ids bt).
        uint (bt_ids bt ! i) = fst (ld_systems ld ! i) \<and>
        take 3 (drop (3 * i) (bt_positions bt)) = position3 (ld_systems ld ! i)"
      using each by blast
  qed
  from parallel order show ?thesis by (rule conjI)
qed

text \<open>The scenario: ids 1 and 3, and the six position items of the same two systems.\<close>

theorem ids_positions_parallel_witness:
  "load example_rt scenario_args scenario_db = Inr scenario_loaded \<and>
   fst scenario_run = Inr scenario_summary \<and>
   fs_files (snd scenario_run) (''out'', ''systems_ids.bin'') = Some (UIntArrayBytes [1, 3]) \<and>
   fs_files (snd scenario_run) (''out'', ''systems_positions.bin'') =
     Some (FloatArrayBytes [Finite False 0, Finite False 0, Finite True 0,
                            Finite False 1, Finite False 0, Finite True 0]) \<and>
   position3 (ld_systems scenario_loaded ! 0) = [Finite False 0, Finite False 0, Finite True 0] \<and>
   position3 (ld_systems scenario_loaded ! 1) = [Finite False 1, Finite False 0, Finite True 0] \<and>
   map fst (ld_systems scenario_loaded) = [1, 3]"
proof -
  note T = ids_positions_parallel [OF scenario_load scenario_result [unfolded scenario_run_def],
             folded scenario_run_def, unfolded arg_out_scenario scenario_files]
  from T obtain ids positions where
    "Some (UIntArrayBytes [1, 3]) = Some (UIntArrayBytes ids)"
    "Some (FloatArrayBytes [Finite False 0, Finite False 0, Finite True 0,
                            Finite False 1, Finite False 0, Finite True 0])
       = Some (FloatArrayBytes positions)"
    and each: "\<forall>i<length ids. uint (ids ! i) = fst (ld_systems scenario_loaded ! i) \<and>
        take 3 (drop (3 * i) positions) = position3 (ld_systems scenario_loaded ! i)"
    by blast
  then have ids: "ids = [1, 3]"
    and positions: "positions = [Finite False 0, Finite False 0, Finite True 0,
                            Finite False 1, Finite False 0, Finite True 0]"
    by simp_all
  from each [rule_format, of 0] each [rule_format, of 1]
  have "position3 (ld_systems scenario_loaded ! 0) = [Finite False 0, Finite False 0, Finite True 0]"
    and "position3 (ld_systems scenario_loaded ! 1) = [Finite False 1, Finite False 0, Finite True 0]"
    by (simp_all add: ids positions)
  then show ?thesis
    by (simp add: scenario_load scenario_result scenario_files) (simp add: scenario_loaded_def)
qed

text \<open>Writing the assets twice is writing them once.\<close>

lemma mkdir_twice: "mkdir (mkdir f d) d = mkdir f d"
  by (simp add: mkdir_def)

lemma write_assets_dirs: "fs_dirs (write_assets f0 d ld bt) = fs_dirs f0"
  by (simp add: write_assets_def write_file_def Let_def)

lemma write_assets_asset:
  "n \<in> set asset_names \<Longrightarrow>
   fs_files (write_assets f0 d ld bt) (d, n) = fs_files (write_assets f1 d ld bt) (d, n)"
  by (auto simp: write_assets_def write_file_def Let_def asset_names_def)

lemma write_assets_rerun:
  "write_assets (mkdir (write_assets (mkdir f d) d ld bt) d) d ld bt = write_assets (mkdir f d) d ld bt"
proof (rule fs.equality)
  show "fs_dirs (write_assets (mkdir (write_assets (mkdir f d) d ld bt) d) d ld bt)
          = fs_dirs (write_assets (mkdir f d) d ld bt)"
    by (simp add: write_assets_dirs mkdir_def)
  show "fs_files (write_assets (mkdir (write_assets (mkdir f d) d ld bt) d) d ld bt)
          = fs_files (write_assets (mkdir f d) d ld bt)"
    by (rule ext) (auto simp: write_assets_def write_file_def Let_def mkdir_def)
  show "fs.more (write_assets (mkdir (write_assets (mkdir f d) d ld bt) d) d ld bt)
          = fs.more (write_assets (mkdir f d) d ld bt)"
    by simp
qed

text \<open>
  The writes of a run overwrite: a second run started from the files that a first run
  left returns the same and leaves the same files, and what the first run found under
  the five asset names does not show in what it leaves. This is a fact about
  \<open>write_assets\<close> alone; it holds whatever is loaded and built, and says nothing about
  the bytes of a file.
\<close>

lemma rerun_overwrites:
  "main rt a cur (snd (main rt a cur f)) = main rt a cur f \<and>
   fst (main rt a cur f') = fst (main rt a cur f) \<and>
   (\<forall>sm. fst (main rt a cur f) = Inr sm \<longrightarrow>
      (\<forall>n\<in>set asset_names.
         fs_files (snd (main rt a cur f')) (arg_out a, n)
           = fs_files (snd (main rt a cur f)) (arg_out a, n)))"
proof (intro conjI allI impI ballI)
  show "main rt a cur (snd (main rt a cur f)) = main rt a cur f"
    by (auto simp: main_def Let_def mkdir_twice write_assets_rerun split: sum.splits)
  show "fst (main rt a cur f') = fst (main rt a cur f)"
    by (auto simp: main_def Let_def split: sum.splits)
next
  fix sm n
  assume "fst (main rt a cur f) = Inr sm" and "n \<in> set asset_names"
  then show "fs_files (snd (main rt a cur f')) (arg_out a, n)
           = fs_files (snd (main rt a cur f)) (arg_out a, n)"
    by (auto simp: main_def Let_def split: sum.splits intro: write_assets_asset)
qed

text \<open>
  Claim C9. A row whose name matches an exclusion pattern is skipped, whatever its id
  and its coordinates are: the loop goes on with the next row and counts one more
  excluded system, and neither \<open>int\<close> nor \<open>float\<close> is applied to the row.
\<close>

theorem excluded_row_skipped:
  assumes "row_get r (id_col sc) = Inr sid"
    and "name_value rt sc r sid = Inr (PyStr nm)"
    and "is_filtered_system nm"
  shows "load_row rt sc r = Inr None \<and>
         load_systems rt sc (r # rows) systems n = load_systems rt sc rows systems (n + 1)"
  using assms by (simp add: load_row_def)

text \<open>A row named \<open>AD123\<close> whose id is the text \<open>abc\<close> and whose \<open>x\<close> is null: \<open>int\<close> of
  the id and \<open>float\<close> of the coordinate would both raise, and the row is skipped.\<close>

theorem excluded_row_skipped_witness:
  "row_get excluded_bad_row (id_col scenario_columns) = Inr (PyStr ''abc'') \<and>
   name_value example_rt scenario_columns excluded_bad_row (PyStr ''abc'') = Inr (PyStr ''AD123'') \<and>
   is_filtered_system ''AD123'' \<and>
   py_int example_rt (PyStr ''abc'') = Inl ValueError \<and>
   coord example_rt excluded_bad_row (x_col scenario_columns) = Inl TypeError \<and>
   load_row example_rt scenario_columns excluded_bad_row = Inr None \<and>
   load_systems example_rt scenario_columns [excluded_bad_row] [] 0 = Inr ([], 1)"
proof -
  have id: "row_get excluded_bad_row (id_col scenario_columns) = Inr (PyStr ''abc'')"
    by (simp add: excluded_bad_row_def scenario_columns_def string_eval)
  have nm: "name_value example_rt scenario_columns excluded_bad_row (PyStr ''abc'') = Inr (PyStr ''AD123'')"
    by (simp add: name_value_def excluded_bad_row_def scenario_columns_def truthy_def row_keys_def
          string_eval)
  have flt: "is_filtered_system ''AD123''"
    by (simp add: filter_eval string_eval)
  have bad_id: "py_int example_rt (PyStr ''abc'') = Inl ValueError"
    by (simp add: example_rt_def digits_value_def parsed_def string_eval)
  have bad_x: "coord example_rt excluded_bad_row (x_col scenario_columns) = Inl TypeError"
    by (simp add: coord_def excluded_bad_row_def scenario_columns_def truthy_def string_eval)
  from excluded_row_skipped [OF id nm flt, of "[]" "[]" 0] id nm flt bad_id bad_x
  show ?thesis by simp
qed

text \<open>
  Claim C10. In a run that succeeds, every loaded system id and both ends of every
  surviving jump are at least 0 and less than \<open>2^32\<close>, the arrays hold them unchanged,
  and appending a value outside that range to an \<open>array('I')\<close> raises \<open>OverflowError\<close>.
\<close>

theorem emitted_ids_fit_u32:
  assumes "load rt a cur = Inr ld" and "fst (main rt a cur f) = Inr sm"
  shows "(\<forall>s\<in>set (ld_systems ld). 0 \<le> fst s \<and> fst s < 2 ^ 32) \<and>
     (\<forall>j\<in>set (ld_jumps ld). surviving_jump (set (map fst (ld_systems ld))) j \<longrightarrow>
        0 \<le> fst j \<and> fst j < 2 ^ 32 \<and> 0 \<le> snd j \<and> snd j < 2 ^ 32) \<and>
     (\<exists>ids flat_jumps.
        fs_files (snd (main rt a cur f)) (arg_out a, ''systems_ids.bin'') = Some (UIntArrayBytes ids) \<and>
        fs_files (snd (main rt a cur f)) (arg_out a, ''jumps.bin'') = Some (UIntArrayBytes flat_jumps) \<and>
        map uint ids = map fst (ld_systems ld) \<and>
        pairs_of flat_jumps = filter (surviving_jump (set (map fst (ld_systems ld)))) (ld_jumps ld)) \<and>
     (\<forall>arr v. \<not> (0 \<le> v \<and> v < 2 ^ 32) \<longrightarrow> append_I arr v = Inl OverflowError)"
proof -
  from assms obtain bt where
    bt: "build rt (ld_systems ld) (ld_jumps ld) = Inr bt" and
    fs: "snd (main rt a cur f) = write_assets (mkdir f (arg_out a)) (arg_out a) ld bt"
    by (rule main_success_ld)
  note B = build_Inr [OF bt]
  have range: "\<forall>s\<in>set (ld_systems ld). 0 \<le> fst s \<and> fst s < 2 ^ 32"
    using B(3) by (simp add: list_all_iff in_u32_def)
  then have jumps: "\<forall>j\<in>set (ld_jumps ld). surviving_jump (set (map fst (ld_systems ld))) j \<longrightarrow>
        0 \<le> fst j \<and> fst j < 2 ^ 32 \<and> 0 \<le> snd j \<and> snd j < 2 ^ 32"
    by (auto simp: surviving_jump_def)
  have ids: "map uint (bt_ids bt) = map fst (ld_systems ld)"
    using B(3) by (simp add: B(1) list_all_iff uint_u32)
  have pairs: "pairs_of (bt_flat_jumps bt) = filter (surviving_jump (set (map fst (ld_systems ld)))) (ld_jumps ld)"
    using pairs_of_flatten [OF surviving_in_u32 [OF B(3)]] by (simp add: B(4))
  have written: "\<exists>ids flat_jumps.
        fs_files (snd (main rt a cur f)) (arg_out a, ''systems_ids.bin'') = Some (UIntArrayBytes ids) \<and>
        fs_files (snd (main rt a cur f)) (arg_out a, ''jumps.bin'') = Some (UIntArrayBytes flat_jumps) \<and>
        map uint ids = map fst (ld_systems ld) \<and>
        pairs_of flat_jumps = filter (surviving_jump (set (map fst (ld_systems ld)))) (ld_jumps ld)"
    by (rule exI [of _ "bt_ids bt"], rule exI [of _ "bt_flat_jumps bt"])
       (simp add: fs written_files ids pairs)
  have raise: "\<forall>arr v. \<not> (0 \<le> v \<and> v < 2 ^ 32) \<longrightarrow> append_I arr v = Inl OverflowError"
    by (simp add: append_I_def)
  from range jumps written raise show ?thesis by blast
qed

text \<open>The scenario, and two values that an \<open>array('I')\<close> refuses.\<close>

theorem emitted_ids_fit_u32_witness:
  "load example_rt scenario_args scenario_db = Inr scenario_loaded \<and>
   fst scenario_run = Inr scenario_summary \<and>
   map fst (ld_systems scenario_loaded) = [1, 3] \<and>
   (0 :: int) \<le> 1 \<and> (3 :: int) < 2 ^ 32 \<and>
   fs_files (snd scenario_run) (''out'', ''systems_ids.bin'') = Some (UIntArrayBytes [1, 3]) \<and>
   fs_files (snd scenario_run) (''out'', ''jumps.bin'') = Some (UIntArrayBytes [1, 3]) \<and>
   map uint [1, 3 :: 32 word] = [1, 3] \<and>
   append_I [] (2 ^ 32) = Inl OverflowError \<and>
   append_I [] (- 1) = Inl OverflowError"
  using emitted_ids_fit_u32 [OF scenario_load scenario_result [unfolded scenario_run_def]]
  by (simp add: scenario_load scenario_result scenario_files) (simp add: scenario_loaded_def)

end
